theory Spec2Isabelle
  imports Main
begin

section \<open>Python values, exceptions and the protocols the services test for\<close>

text \<open>
  The module \<^verbatim>\<open>autotranslate/services.py\<close> is dynamically typed: every argument of
  every method may be any Python object. The values the three services can tell apart
  are modelled by one datatype. \<open>PyGen xs\<close> is a generator object that still has the
  items \<open>xs\<close> to yield; \<open>PyObj n\<close> is an instance of a class that is neither a string
  nor a container nor a mapping (a client handle, a credentials object, a module).
  A set is kept as the list of its elements in iteration order, a dict as an
  association list in insertion order.
\<close>

text \<open>
  The interpreter is taken as the module expects it: \<^verbatim>\<open>assert\<close> statements are
  executed (no \<^verbatim>\<open>-O\<close>), the names \<^verbatim>\<open>collections.Iterable\<close> and
  \<^verbatim>\<open>collections.MutableSequence\<close> exist, and the \<^verbatim>\<open>import\<close> statements at the head of
  \<^verbatim>\<open>GoogleAPITranslatorService.__init__\<close> succeed.
\<close>

datatype pyval =
    PyNone
  | PyBool bool
  | PyInt int
  | PyStr string
  | PyList "pyval list"
  | PyTuple "pyval list"
  | PySet "pyval list"
  | PyDict "(pyval \<times> pyval) list"
  | PyGen "pyval list"
  | PyObj nat

text \<open>
  Every \<^verbatim>\<open>raise\<close> and every failing \<^verbatim>\<open>assert\<close> of the module is a value of
  \<open>exn\<close>; \<open>BackendError\<close> stands for whatever the third-party client raises.
\<close>

datatype exn =
    AssertionError string
  | NotImplementedError string
  | ImproperlyConfigured string
  | TypeError
  | KeyError string
  | AttributeError
  | BackendError string

text \<open>\<^verbatim>\<open>isinstance(v, six.string_types)\<close>\<close>

fun is_string_types :: "pyval \<Rightarrow> bool" where
  "is_string_types (PyStr s) = True"
| "is_string_types v = False"

text \<open>\<^verbatim>\<open>isinstance(v, collections.Iterable)\<close>: strings, lists, tuples, sets, dicts and
  generators define \<^verbatim>\<open>__iter__\<close>.\<close>

fun is_Iterable :: "pyval \<Rightarrow> bool" where
  "is_Iterable (PyStr s) = True"
| "is_Iterable (PyList xs) = True"
| "is_Iterable (PyTuple xs) = True"
| "is_Iterable (PySet xs) = True"
| "is_Iterable (PyDict kvs) = True"
| "is_Iterable (PyGen xs) = True"
| "is_Iterable v = False"

text \<open>\<^verbatim>\<open>isinstance(v, collections.MutableSequence)\<close>: of the values above only a list.\<close>

fun is_MutableSequence :: "pyval \<Rightarrow> bool" where
  "is_MutableSequence (PyList xs) = True"
| "is_MutableSequence v = False"

text \<open>Truth value testing, as used by \<^verbatim>\<open>assert x\<close>, \<^verbatim>\<open>not x\<close> and \<^verbatim>\<open>a if x else b\<close>.\<close>

fun py_truthy :: "pyval \<Rightarrow> bool" where
  "py_truthy PyNone = False"
| "py_truthy (PyBool b) = b"
| "py_truthy (PyInt i) = (i \<noteq> 0)"
| "py_truthy (PyStr s) = (s \<noteq> [])"
| "py_truthy (PyList xs) = (xs \<noteq> [])"
| "py_truthy (PyTuple xs) = (xs \<noteq> [])"
| "py_truthy (PySet xs) = (xs \<noteq> [])"
| "py_truthy (PyDict kvs) = (kvs \<noteq> [])"
| "py_truthy (PyGen xs) = True"
| "py_truthy (PyObj n) = True"

text \<open>
  One full iteration over a value (\<^verbatim>\<open>for _ in v\<close>): the items it yields, and the
  object as it is afterwards. A container is unchanged; a generator is exhausted.
  A value that is not iterable raises \<^verbatim>\<open>TypeError\<close>.
\<close>

fun py_iterate :: "pyval \<Rightarrow> exn + (pyval list \<times> pyval)" where
  "py_iterate (PyStr s) = Inr (map (\<lambda>c. PyStr [c]) s, PyStr s)"
| "py_iterate (PyList xs) = Inr (xs, PyList xs)"
| "py_iterate (PyTuple xs) = Inr (xs, PyTuple xs)"
| "py_iterate (PySet xs) = Inr (xs, PySet xs)"
| "py_iterate (PyDict kvs) = Inr (map fst kvs, PyDict kvs)"
| "py_iterate (PyGen xs) = Inr (xs, PyGen [])"
| "py_iterate v = Inl TypeError"

text \<open>\<^verbatim>\<open>v.get(key)\<close> with a string key: the defaulting lookup of a dict; the other
  values have no attribute \<^verbatim>\<open>get\<close>.\<close>

fun py_get :: "pyval \<Rightarrow> string \<Rightarrow> exn + pyval" where
  "py_get (PyDict kvs) key =
     Inr (case map_of kvs (PyStr key) of None \<Rightarrow> PyNone | Some v \<Rightarrow> v)"
| "py_get v key = Inl AttributeError"

text \<open>\<^verbatim>\<open>v[key]\<close> with a string key: a dict raises \<^verbatim>\<open>KeyError\<close> when the key is
  missing; a string, list or tuple refuses a string index and the other values are not
  subscriptable, both with \<^verbatim>\<open>TypeError\<close>.\<close>

fun py_getitem :: "pyval \<Rightarrow> string \<Rightarrow> exn + pyval" where
  "py_getitem (PyDict kvs) key =
     (case map_of kvs (PyStr key) of None \<Rightarrow> Inl (KeyError key) | Some v \<Rightarrow> Inr v)"
| "py_getitem v key = Inl TypeError"

text \<open>A parameter with a default value: \<open>None\<close> when the caller leaves it out.\<close>

definition arg_or :: "pyval option \<Rightarrow> pyval \<Rightarrow> pyval" where
  "arg_or a d = (case a of None \<Rightarrow> d | Some v \<Rightarrow> v)"


section \<open>The third-party collaborators\<close>

text \<open>
  The services call three libraries: \<^verbatim>\<open>goslate\<close>, \<^verbatim>\<open>google.oauth2.service_account\<close> and
  \<^verbatim>\<open>google.cloud.translate_v2\<close>. Each call that leaves the module is an \<open>event\<close>:
  \<^item> \<open>GoslateNew\<close>: \<^verbatim>\<open>goslate.Goslate()\<close>;
  \<^item> \<open>FromServiceAccountInfo info\<close>:
    \<^verbatim>\<open>service_account.Credentials.from_service_account_info(info)\<close>;
  \<^item> \<open>ClientNew credentials\<close>: \<^verbatim>\<open>translate.Client(credentials=credentials)\<close>;
  \<^item> \<open>Translate client x target source\<close>: \<^verbatim>\<open>client.translate(x, target, source)\<close>.

  The libraries are a parameter of the model: a function from the calls made so far and
  the present call to what it returns or raises. The calls made so far are threaded
  through every operation, so that "no call was made" is a statement about this log.
\<close>

datatype event =
    GoslateNew
  | FromServiceAccountInfo pyval
  | ClientNew pyval
  | Translate pyval pyval pyval pyval

type_synonym external = "event list \<Rightarrow> event \<Rightarrow> exn + pyval"

definition call_external :: "external \<Rightarrow> event list \<Rightarrow> event \<Rightarrow> (exn + pyval) \<times> event list" where
  "call_external ext log e = (ext log e, log @ [e])"


section \<open>BaseTranslatorService\<close>

text \<open>The default of \<^verbatim>\<open>source_language\<close> in both signatures of the base class.\<close>

definition base_default_source_language :: pyval where
  "base_default_source_language = PyStr ''en''"

text \<open>Both methods bind their parameters and raise; \<^verbatim>\<open>target_language\<close> has no default.\<close>

definition base_translate_string ::
  "pyval \<Rightarrow> pyval \<Rightarrow> pyval option \<Rightarrow> exn + pyval" where
  "base_translate_string text target_language source_language =
     (let source_language = arg_or source_language base_default_source_language
      in Inl (NotImplementedError ''.translate_string() must be overridden.''))"

definition base_translate_strings ::
  "pyval \<Rightarrow> pyval \<Rightarrow> pyval option \<Rightarrow> pyval option \<Rightarrow> exn + pyval" where
  "base_translate_strings strings target_language source_language optimized =
     (let source_language = arg_or source_language base_default_source_language;
          optimized = arg_or optimized (PyBool True)
      in Inl (NotImplementedError ''.translate_strings() must be overridden.''))"


section \<open>GoSlateTranslatorService\<close>

record goslate_service =
  service :: pyval

text \<open>\<open>goslate\<close> is the name imported from \<^verbatim>\<open>autotranslate.compat\<close>: the module, or a
  false value when the package is not installed.\<close>

definition goslate_init ::
  "external \<Rightarrow> event list \<Rightarrow> pyval \<Rightarrow> (exn + goslate_service) \<times> event list" where
  "goslate_init ext log goslate =
     (if \<not> py_truthy goslate
      then (Inl (AssertionError ''`GoSlateTranslatorService` requires `goslate` package''), log)
      else (case call_external ext log GoslateNew of
              (Inl e, log') \<Rightarrow> (Inl e, log')
            | (Inr s, log') \<Rightarrow> (Inr \<lparr>service = s\<rparr>, log')))"

definition goslate_translate_string ::
  "external \<Rightarrow> event list \<Rightarrow> goslate_service \<Rightarrow> pyval \<Rightarrow> pyval \<Rightarrow> pyval option
     \<Rightarrow> (exn + pyval) \<times> event list" where
  "goslate_translate_string ext log self text target_language source_language =
     (if \<not> is_string_types text
      then (Inl (AssertionError ''`text` should a string literal''), log)
      else call_external ext log
             (Translate (service self) text target_language
                (arg_or source_language (PyStr ''en''))))"

definition goslate_translate_strings ::
  "external \<Rightarrow> event list \<Rightarrow> goslate_service \<Rightarrow> pyval \<Rightarrow> pyval \<Rightarrow> pyval option
     \<Rightarrow> pyval option \<Rightarrow> (exn + pyval) \<times> event list" where
  "goslate_translate_strings ext log self strings target_language source_language optimized =
     (if \<not> is_Iterable strings
      then (Inl (AssertionError ''`strings` should a iterable containing string_types''), log)
      else (case call_external ext log
                   (Translate (service self) strings target_language
                      (arg_or source_language (PyStr ''en''))) of
              (Inl e, log') \<Rightarrow> (Inl e, log')
            | (Inr translations, log') \<Rightarrow>
                (if py_truthy (arg_or optimized (PyBool True))
                 then (Inr translations, log')
                 else (case py_iterate translations of
                         Inl e \<Rightarrow> (Inl e, log')
                       | Inr (items, _) \<Rightarrow> (Inr (PyList items), log')))))"


section \<open>GoogleAPITranslatorService\<close>

record google_service =
  translate_client :: pyval
  translated_strings :: "pyval list"

definition credentials_setting :: string where
  "credentials_setting = ''AUTOTRANSLATE_GOOGLE_TRANSLATOR_SERVICE_CREDENTIALS_JSON''"

text \<open>\<open>settings\<close> is the attribute table of \<^verbatim>\<open>django.conf.settings\<close>; \<^verbatim>\<open>getattr\<close> with
  a default reads it.\<close>

definition py_getattr :: "(string \<rightharpoonup> pyval) \<Rightarrow> string \<Rightarrow> pyval \<Rightarrow> pyval" where
  "py_getattr obj name d = (case obj name of None \<Rightarrow> d | Some v \<Rightarrow> v)"

definition google_init ::
  "external \<Rightarrow> event list \<Rightarrow> (string \<rightharpoonup> pyval) \<Rightarrow> (exn + google_service) \<times> event list" where
  "google_init ext log settings =
     (let json_acct_info =
            py_getattr settings ''AUTOTRANSLATE_GOOGLE_TRANSLATOR_SERVICE_CREDENTIALS_JSON''
              (PyDict [])
      in if \<not> py_truthy json_acct_info
         then (Inl (ImproperlyConfigured
                 ''ImproperlyConfigured AUTOTRANSLATE_GOOGLE_TRANSLATOR_SERVICE_CREDENTIALS_JSON setting''),
               log)
         else (case call_external ext log (FromServiceAccountInfo json_acct_info) of
                 (Inl e, log1) \<Rightarrow> (Inl e, log1)
               | (Inr credentials, log1) \<Rightarrow>
                   (case call_external ext log1 (ClientNew credentials) of
                      (Inl e, log2) \<Rightarrow> (Inl e, log2)
                    | (Inr client, log2) \<Rightarrow>
                        (Inr \<lparr>translate_client = client, translated_strings = []\<rparr>, log2))))"

definition google_translate_string ::
  "external \<Rightarrow> event list \<Rightarrow> google_service \<Rightarrow> pyval \<Rightarrow> pyval option \<Rightarrow> pyval option
     \<Rightarrow> (exn + pyval) \<times> event list" where
  "google_translate_string ext log self text target_language source_language =
     (if \<not> is_string_types text
      then (Inl (AssertionError ''`text` should a string literal''), log)
      else (case call_external ext log
                   (Translate (translate_client self) text
                      (arg_or target_language (PyStr ''en''))
                      (arg_or source_language (PyStr ''es''))) of
              (Inl e, log') \<Rightarrow> (Inl e, log')
            | (Inr translation, log') \<Rightarrow> (py_get translation ''translatedText'', log')))"

text \<open>The list comprehension \<^verbatim>\<open>[translation["translatedText"] for translation in response]\<close>
  over the items of the response: the first item that fails ends it.\<close>

fun translated_texts :: "pyval list \<Rightarrow> exn + pyval list" where
  "translated_texts [] = Inr []"
| "translated_texts (translation # rest) =
     (case py_getitem translation ''translatedText'' of
        Inl e \<Rightarrow> Inl e
      | Inr v \<Rightarrow> (case translated_texts rest of
                   Inl e \<Rightarrow> Inl e
                 | Inr vs \<Rightarrow> Inr (v # vs)))"

text \<open>
  \<^verbatim>\<open>translate_strings\<close> returns the list object held in \<^verbatim>\<open>self.translated_strings\<close>; the
  model returns its contents at the time of the return, together with the instance as
  the call leaves it. An exception leaves the accumulator as it was: the comprehension
  is evaluated in full before \<^verbatim>\<open>extend\<close> runs.
\<close>

definition google_translate_strings ::
  "external \<Rightarrow> event list \<Rightarrow> google_service \<Rightarrow> pyval \<Rightarrow> pyval \<Rightarrow> pyval option
     \<Rightarrow> pyval option \<Rightarrow> (exn + pyval) \<times> event list \<times> google_service" where
  "google_translate_strings ext log self strings target_language source_language optimized =
     (if \<not> is_MutableSequence strings
      then (Inl (AssertionError ''`strings` should be a sequence containing string_types''),
            log, self)
      else (case call_external ext log
                   (Translate (translate_client self) strings target_language
                      (arg_or source_language (PyStr ''en''))) of
              (Inl e, log') \<Rightarrow> (Inl e, log', self)
            | (Inr response, log') \<Rightarrow>
                (case py_iterate response of
                   Inl e \<Rightarrow> (Inl e, log', self)
                 | Inr (items, _) \<Rightarrow>
                     (case translated_texts items of
                        Inl e \<Rightarrow> (Inl e, log', self)
                      | Inr new \<Rightarrow>
                          (let self' = self\<lparr>translated_strings := translated_strings self @ new\<rparr>
                           in (Inr (PyList (translated_strings self')), log', self'))))))"

section \<open>The translation an item of a response carries\<close>

text \<open>
  The backend of \<^verbatim>\<open>GoogleAPITranslatorService\<close> answers a batch with a sequence of
  mappings, one for each string. \<open>has_translated_text item t\<close> says that \<open>item\<close> is
  such a mapping and that \<open>t\<close> is the value under its key \<^verbatim>\<open>translatedText\<close>. The
  translations of a whole response \<open>items\<close> are then the list \<open>ts\<close> with
  \<open>list_all2 has_translated_text items ts\<close>: of the same length, related position by
  position.
\<close>

fun has_translated_text :: "pyval \<Rightarrow> pyval \<Rightarrow> bool" where
  "has_translated_text (PyDict kvs) t = (map_of kvs (PyStr ''translatedText'') = Some t)"
| "has_translated_text v t = False"


section \<open>Stub backends\<close>

text \<open>
  Two deterministic backends for concrete runs, after the scenarios of the
  specification: \<open>hello\<close>, \<open>world\<close>, \<open>hi\<close> and \<open>bye\<close> have French translations,
  every other text is returned as it is. The free backend answers a batch with a
  generator of strings, the paid one with a list of mappings that carry the field
  \<^verbatim>\<open>translatedText\<close> beside the input.
\<close>

fun stub_translation :: "pyval \<Rightarrow> pyval" where
  "stub_translation (PyStr s) =
     (if s = ''hello'' then PyStr ''bonjour''
      else if s = ''world'' then PyStr ''monde''
      else if s = ''hi'' then PyStr ''bonjour''
      else if s = ''bye'' then PyStr ''au revoir''
      else PyStr s)"
| "stub_translation v = v"

fun stub_free :: external where
  "stub_free log (Translate c (PyStr s) t l) = Inr (stub_translation (PyStr s))"
| "stub_free log (Translate c (PyList xs) t l) = Inr (PyGen (map stub_translation xs))"
| "stub_free log e = Inr (PyObj (length log))"

definition stub_item :: "pyval \<Rightarrow> pyval" where
  "stub_item x = PyDict [(PyStr ''translatedText'', stub_translation x), (PyStr ''input'', x)]"

fun stub_paid :: external where
  "stub_paid log (Translate c (PyStr s) t l) = Inr (stub_item (PyStr s))"
| "stub_paid log (Translate c (PyList xs) t l) = Inr (PyList (map stub_item xs))"
| "stub_paid log e = Inr (PyObj (length log))"

text \<open>A paid backend whose answer to a single text lacks the field \<^verbatim>\<open>translatedText\<close>.\<close>

fun stub_paid_no_field :: external where
  "stub_paid_no_field log (Translate c x t l) = Inr (PyDict [(PyStr ''input'', x)])"
| "stub_paid_no_field log e = Inr (PyObj (length log))"


section \<open>Batch translation: order and accumulation\<close>

text \<open>A successful call of \<^verbatim>\<open>GoogleAPITranslatorService.translate_strings\<close> returns the
  accumulator it found followed by the translations of its own batch, and leaves that
  list in the instance.\<close>

lemma google_translate_strings_Inr:
  assumes "google_translate_strings ext log self strings tgt src opt = (Inr r, log', self')"
  shows "\<exists>new. r = PyList (translated_strings self @ new)
           \<and> translated_strings self' = translated_strings self @ new
           \<and> translate_client self' = translate_client self"
  using assms
  by (auto simp: google_translate_strings_def call_external_def Let_def
           split: if_splits sum.splits prod.splits)

text \<open>The comprehension over a response returns exactly the translations its items
  carry, in the order of the items.\<close>

lemma translated_texts_carried:
  "list_all2 has_translated_text items ts \<Longrightarrow> translated_texts items = Inr ts"
proof (induction rule: list_all2_induct)
  case Nil
  show ?case by simp
next
  case (Cons item items t ts)
  from Cons.hyps(1) obtain kvs where
    "item = PyDict kvs" "map_of kvs (PyStr ''translatedText'') = Some t"
    by (cases item) simp_all
  with Cons.IH show ?case by simp
qed

text \<open>One call on a list, answered with a list of such mappings: the call returns the
  accumulator followed by the translations carried, logs its one backend call and leaves
  the longer accumulator in the instance.\<close>

lemma google_translate_strings_one_call:
  assumes "ext log (Translate (translate_client self) (PyList xs) tgt (arg_or src (PyStr ''en'')))
             = Inr (PyList items)"
      and "list_all2 has_translated_text items new"
  shows "google_translate_strings ext log self (PyList xs) tgt src opt
           = (Inr (PyList (translated_strings self @ new)),
              log @ [Translate (translate_client self) (PyList xs) tgt
                       (arg_or src (PyStr ''en''))],
              self\<lparr>translated_strings := translated_strings self @ new\<rparr>)"
  using assms
  by (simp add: google_translate_strings_def call_external_def translated_texts_carried Let_def)

text \<open>A response whose items are mappings with the field \<^verbatim>\<open>translatedText\<close> yields
  the fields in the order of the items.\<close>

lemma translated_texts_map:
  "translated_texts (map (\<lambda>x. PyDict ((PyStr ''translatedText'', f x) # other x)) xs) = Inr (map f xs)"
  by (induction xs) simp_all

text \<open>With a backend that answers a list in request order,
  \<^verbatim>\<open>GoSlateTranslatorService.translate_strings\<close> returns the translations position for
  position, lazily or as a list.\<close>

lemma goslate_translate_strings_in_order:
  assumes "ext log (Translate (service self) (PyList xs) tgt (arg_or src (PyStr ''en'')))
             = Inr (PyGen (map f xs))"
  shows "fst (goslate_translate_strings ext log self (PyList xs) tgt src (Some (PyBool True)))
           = Inr (PyGen (map f xs))"
    and "fst (goslate_translate_strings ext log self (PyList xs) tgt src (Some (PyBool False)))
           = Inr (PyList (map f xs))"
  using assms
  by (simp_all add: goslate_translate_strings_def call_external_def arg_or_def)

text \<open>With such a backend \<^verbatim>\<open>GoogleAPITranslatorService.translate_strings\<close> returns the
  translations of the batch behind whatever the accumulator held; they are aligned with
  the input only when the accumulator was empty.\<close>

lemma google_translate_strings_after_accumulator:
  assumes "ext log (Translate (translate_client self) (PyList xs) tgt (arg_or src (PyStr ''en'')))
             = Inr (PyList (map (\<lambda>x. PyDict ((PyStr ''translatedText'', f x) # other x)) xs))"
  shows "fst (google_translate_strings ext log self (PyList xs) tgt src opt)
           = Inr (PyList (translated_strings self @ map f xs))"
  using assms
  by (simp add: google_translate_strings_def call_external_def translated_texts_map Let_def)

lemma google_translate_strings_fresh_in_order:
  assumes "translated_strings self = []"
      and "ext log (Translate (translate_client self) (PyList xs) tgt (arg_or src (PyStr ''en'')))
             = Inr (PyList (map (\<lambda>x. PyDict ((PyStr ''translatedText'', f x) # other x)) xs))"
  shows "fst (google_translate_strings ext log self (PyList xs) tgt src opt)
           = Inr (PyList (map f xs))"
  using assms google_translate_strings_after_accumulator [of ext log self xs tgt src f other opt]
  by simp

text \<open>
  C1: for every ordered sequence of strings passed to \<^verbatim>\<open>translate_strings\<close>, on either
  variant and for both values of \<^verbatim>\<open>optimized\<close>, the returned sequence matches the input
  position for position, given a backend that answers in request order.
  The lemmas above show this for \<^verbatim>\<open>GoSlateTranslatorService\<close> and for a
  \<^verbatim>\<open>GoogleAPITranslatorService\<close> whose accumulator is empty. It fails on the second call
  on one \<^verbatim>\<open>GoogleAPITranslatorService\<close>: after \<^verbatim>\<open>translate_strings(["hi"], "fr")\<close>,
  the call \<^verbatim>\<open>translate_strings(["bye"], "fr")\<close> returns two strings for an input of
  one, and position 0 holds the translation of \<open>hi\<close>, not that of \<open>bye\<close>.
\<close>

theorem google_translate_strings_second_call_misaligned:
  "google_translate_strings stub_paid []
       \<lparr>translate_client = PyObj 1, translated_strings = []\<rparr>
       (PyList [PyStr ''hi'']) (PyStr ''fr'') None None
     = (Inr (PyList [PyStr ''bonjour'']),
        [Translate (PyObj 1) (PyList [PyStr ''hi'']) (PyStr ''fr'') (PyStr ''en'')],
        \<lparr>translate_client = PyObj 1, translated_strings = [PyStr ''bonjour'']\<rparr>)
   \<and> google_translate_strings stub_paid
       [Translate (PyObj 1) (PyList [PyStr ''hi'']) (PyStr ''fr'') (PyStr ''en'')]
       \<lparr>translate_client = PyObj 1, translated_strings = [PyStr ''bonjour'']\<rparr>
       (PyList [PyStr ''bye'']) (PyStr ''fr'') None None
     = (Inr (PyList [PyStr ''bonjour'', PyStr ''au revoir'']),
        [Translate (PyObj 1) (PyList [PyStr ''hi'']) (PyStr ''fr'') (PyStr ''en''),
         Translate (PyObj 1) (PyList [PyStr ''bye'']) (PyStr ''fr'') (PyStr ''en'')],
        \<lparr>translate_client = PyObj 1,
           translated_strings = [PyStr ''bonjour'', PyStr ''au revoir'']\<rparr>)
   \<and> map stub_translation [PyStr ''bye''] = [PyStr ''au revoir'']"
  by (simp add: google_translate_strings_def call_external_def arg_or_def stub_item_def)

text \<open>
  C2: for every \<^verbatim>\<open>GoogleAPITranslatorService\<close> instance and every two successive calls of
  \<^verbatim>\<open>translate_strings\<close> on it, each answered by the backend with a list of mappings:
  the first call returns what the accumulator held followed by the translations its
  response carries, and the second call, made on the instance as the first left it,
  returns all of that followed by the translations its own response carries. The
  accumulator is appended to and never reset.
\<close>

theorem google_translate_strings_accumulates:
  assumes "ext log (Translate (translate_client self) (PyList xsa) ta (arg_or la (PyStr ''en'')))
             = Inr (PyList itemsa)"
      and "list_all2 has_translated_text itemsa newa"
      and "ext (log @ [Translate (translate_client self) (PyList xsa) ta
                         (arg_or la (PyStr ''en''))])
               (Translate (translate_client self) (PyList xsb) tb (arg_or lb (PyStr ''en'')))
             = Inr (PyList itemsb)"
      and "list_all2 has_translated_text itemsb newb"
  shows "google_translate_strings ext log self (PyList xsa) ta la oa
           = (Inr (PyList (translated_strings self @ newa)),
              log @ [Translate (translate_client self) (PyList xsa) ta
                       (arg_or la (PyStr ''en''))],
              self\<lparr>translated_strings := translated_strings self @ newa\<rparr>)
       \<and> google_translate_strings ext
             (log @ [Translate (translate_client self) (PyList xsa) ta
                       (arg_or la (PyStr ''en''))])
             (self\<lparr>translated_strings := translated_strings self @ newa\<rparr>)
             (PyList xsb) tb lb ob
           = (Inr (PyList (translated_strings self @ newa @ newb)),
              log @ [Translate (translate_client self) (PyList xsa) ta
                       (arg_or la (PyStr ''en'')),
                     Translate (translate_client self) (PyList xsb) tb
                       (arg_or lb (PyStr ''en''))],
              self\<lparr>translated_strings := translated_strings self @ newa @ newb\<rparr>)"
proof -
  let ?e1 = "Translate (translate_client self) (PyList xsa) ta (arg_or la (PyStr ''en''))"
  let ?self1 = "self\<lparr>translated_strings := translated_strings self @ newa\<rparr>"
  have first: "google_translate_strings ext log self (PyList xsa) ta la oa
                 = (Inr (PyList (translated_strings self @ newa)), log @ [?e1], ?self1)"
    using assms(1) assms(2)
      google_translate_strings_one_call
        [where ext = ext and log = log and self = self and xs = xsa and tgt = ta
           and src = la and items = itemsa and new = newa and opt = oa]
    by simp
  have "ext (log @ [?e1])
          (Translate (translate_client ?self1) (PyList xsb) tb (arg_or lb (PyStr ''en'')))
          = Inr (PyList itemsb)"
    using assms(3) by simp
  from this assms(4)
    google_translate_strings_one_call
      [where ext = ext and log = "log @ [?e1]" and self = ?self1 and xs = xsb and tgt = tb
         and src = lb and items = itemsb and new = newb and opt = ob]
  have second: "google_translate_strings ext (log @ [?e1]) ?self1 (PyList xsb) tb lb ob
                 = (Inr (PyList (translated_strings self @ newa @ newb)),
                    log @ [?e1, Translate (translate_client self) (PyList xsb) tb
                                  (arg_or lb (PyStr ''en''))],
                    self\<lparr>translated_strings := translated_strings self @ newa @ newb\<rparr>)"
    by simp
  from first second show ?thesis by simp
qed

text \<open>Two batches of two strings each on a fresh instance: the second call returns four
  translations, those of the first batch before those of the second.\<close>

theorem google_translate_strings_accumulates_witness:
  "stub_paid [] (Translate (PyObj 1) (PyList [PyStr ''hi'', PyStr ''bye'']) (PyStr ''fr'')
                   (PyStr ''en''))
     = Inr (PyList [stub_item (PyStr ''hi''), stub_item (PyStr ''bye'')])
   \<and> list_all2 has_translated_text
        [stub_item (PyStr ''hi''), stub_item (PyStr ''bye'')]
        [PyStr ''bonjour'', PyStr ''au revoir'']
   \<and> stub_paid [Translate (PyObj 1) (PyList [PyStr ''hi'', PyStr ''bye'']) (PyStr ''fr'')
                    (PyStr ''en'')]
        (Translate (PyObj 1) (PyList [PyStr ''hello'', PyStr ''world'']) (PyStr ''fr'')
           (PyStr ''en''))
     = Inr (PyList [stub_item (PyStr ''hello''), stub_item (PyStr ''world'')])
   \<and> list_all2 has_translated_text
        [stub_item (PyStr ''hello''), stub_item (PyStr ''world'')]
        [PyStr ''bonjour'', PyStr ''monde'']
   \<and> google_translate_strings stub_paid []
        \<lparr>translate_client = PyObj 1, translated_strings = []\<rparr>
        (PyList [PyStr ''hi'', PyStr ''bye'']) (PyStr ''fr'') None None
     = (Inr (PyList [PyStr ''bonjour'', PyStr ''au revoir'']),
        [Translate (PyObj 1) (PyList [PyStr ''hi'', PyStr ''bye'']) (PyStr ''fr'')
           (PyStr ''en'')],
        \<lparr>translate_client = PyObj 1,
           translated_strings = [PyStr ''bonjour'', PyStr ''au revoir'']\<rparr>)
   \<and> google_translate_strings stub_paid
        [Translate (PyObj 1) (PyList [PyStr ''hi'', PyStr ''bye'']) (PyStr ''fr'')
           (PyStr ''en'')]
        \<lparr>translate_client = PyObj 1,
           translated_strings = [PyStr ''bonjour'', PyStr ''au revoir'']\<rparr>
        (PyList [PyStr ''hello'', PyStr ''world'']) (PyStr ''fr'') None None
     = (Inr (PyList [PyStr ''bonjour'', PyStr ''au revoir'', PyStr ''bonjour'',
                     PyStr ''monde'']),
        [Translate (PyObj 1) (PyList [PyStr ''hi'', PyStr ''bye'']) (PyStr ''fr'')
           (PyStr ''en''),
         Translate (PyObj 1) (PyList [PyStr ''hello'', PyStr ''world'']) (PyStr ''fr'')
           (PyStr ''en'')],
        \<lparr>translate_client = PyObj 1,
           translated_strings = [PyStr ''bonjour'', PyStr ''au revoir'', PyStr ''bonjour'',
                                 PyStr ''monde'']\<rparr>)"
proof -
  let ?self = "\<lparr>translate_client = PyObj 1, translated_strings = []\<rparr>"
  have r1: "stub_paid [] (Translate (translate_client ?self)
                 (PyList [PyStr ''hi'', PyStr ''bye'']) (PyStr ''fr'')
                 (arg_or None (PyStr ''en'')))
            = Inr (PyList [stub_item (PyStr ''hi''), stub_item (PyStr ''bye'')])"
    by (simp add: arg_or_def)
  have n1: "list_all2 has_translated_text
              [stub_item (PyStr ''hi''), stub_item (PyStr ''bye'')]
              [PyStr ''bonjour'', PyStr ''au revoir'']"
    by (simp add: stub_item_def)
  have r2: "stub_paid ([] @ [Translate (translate_client ?self)
                               (PyList [PyStr ''hi'', PyStr ''bye'']) (PyStr ''fr'')
                               (arg_or None (PyStr ''en''))])
              (Translate (translate_client ?self)
                 (PyList [PyStr ''hello'', PyStr ''world'']) (PyStr ''fr'')
                 (arg_or None (PyStr ''en'')))
            = Inr (PyList [stub_item (PyStr ''hello''), stub_item (PyStr ''world'')])"
    by (simp add: arg_or_def)
  have n2: "list_all2 has_translated_text
              [stub_item (PyStr ''hello''), stub_item (PyStr ''world'')]
              [PyStr ''bonjour'', PyStr ''monde'']"
    by (simp add: stub_item_def)
  from r1 n1 r2 n2
    google_translate_strings_accumulates
      [where ext = stub_paid and log = "[]" and self = ?self
         and xsa = "[PyStr ''hi'', PyStr ''bye'']" and ta = "PyStr ''fr''" and la = None
         and itemsa = "[stub_item (PyStr ''hi''), stub_item (PyStr ''bye'')]"
         and newa = "[PyStr ''bonjour'', PyStr ''au revoir'']"
         and xsb = "[PyStr ''hello'', PyStr ''world'']" and tb = "PyStr ''fr''" and lb = None
         and itemsb = "[stub_item (PyStr ''hello''), stub_item (PyStr ''world'')]"
         and newb = "[PyStr ''bonjour'', PyStr ''monde'']" and oa = None and ob = None]
  show ?thesis by (simp add: arg_or_def)
qed

section \<open>Errors\<close>

text \<open>
  C3: for every input, \<^verbatim>\<open>translate_string\<close> and \<^verbatim>\<open>translate_strings\<close> of
  \<^verbatim>\<open>BaseTranslatorService\<close> raise \<^verbatim>\<open>NotImplementedError\<close>.
\<close>

theorem base_methods_raise_NotImplementedError:
  "base_translate_string text tgt src
     = Inl (NotImplementedError ''.translate_string() must be overridden.'')
   \<and> base_translate_strings strings tgt src opt
     = Inl (NotImplementedError ''.translate_strings() must be overridden.'')"
  by (simp add: base_translate_string_def base_translate_strings_def)

text \<open>
  C4: for every value \<open>text\<close> that is not a string, \<^verbatim>\<open>translate_string\<close> of both
  concrete services fails with the assertion's error, and the log of calls to the
  backend is as it was: no backend call has occurred.
\<close>

theorem translate_string_rejects_non_string:
  assumes "\<not> is_string_types text"
  shows "goslate_translate_string ext log gs text tgt src
           = (Inl (AssertionError ''`text` should a string literal''), log)
       \<and> google_translate_string ext log self text tgt' src'
           = (Inl (AssertionError ''`text` should a string literal''), log)"
  using assms by (simp add: goslate_translate_string_def google_translate_string_def)

theorem translate_string_rejects_non_string_witness:
  "\<not> is_string_types (PyInt 5)
   \<and> goslate_translate_string stub_free [] \<lparr>service = PyObj 0\<rparr> (PyInt 5) (PyStr ''fr'') None
        = (Inl (AssertionError ''`text` should a string literal''), [])
   \<and> google_translate_string stub_paid []
        \<lparr>translate_client = PyObj 1, translated_strings = []\<rparr> (PyInt 5) None None
        = (Inl (AssertionError ''`text` should a string literal''), [])"
proof -
  have h: "\<not> is_string_types (PyInt 5)" by simp
  from translate_string_rejects_non_string [OF h] h show ?thesis by simp
qed

text \<open>
  C5: for every value \<open>strings\<close> that is not a mutable sequence (a generator and a set
  are not), \<^verbatim>\<open>GoogleAPITranslatorService.translate_strings\<close> fails with the assertion's
  error, and for every value that is not iterable
  \<^verbatim>\<open>GoSlateTranslatorService.translate_strings\<close> does; in both cases the log of calls
  to the backend, and the instance, are as they were.
\<close>

theorem translate_strings_rejects_wrong_shape:
  "(\<not> is_MutableSequence strings \<longrightarrow>
      google_translate_strings ext log self strings tgt src opt
        = (Inl (AssertionError ''`strings` should be a sequence containing string_types''),
           log, self))
   \<and> (\<not> is_Iterable strings \<longrightarrow>
      goslate_translate_strings ext log gs strings tgt src opt
        = (Inl (AssertionError ''`strings` should a iterable containing string_types''), log))
   \<and> \<not> is_MutableSequence (PyGen xs) \<and> \<not> is_MutableSequence (PySet xs)"
  by (simp add: google_translate_strings_def goslate_translate_strings_def)

theorem translate_strings_rejects_wrong_shape_witness:
  "\<not> is_MutableSequence (PyGen [PyStr ''hi''])
   \<and> google_translate_strings stub_paid []
        \<lparr>translate_client = PyObj 1, translated_strings = []\<rparr>
        (PyGen [PyStr ''hi'']) (PyStr ''fr'') None None
      = (Inl (AssertionError ''`strings` should be a sequence containing string_types''),
         [], \<lparr>translate_client = PyObj 1, translated_strings = []\<rparr>)
   \<and> \<not> is_MutableSequence (PySet [PyStr ''hi''])
   \<and> google_translate_strings stub_paid []
        \<lparr>translate_client = PyObj 1, translated_strings = []\<rparr>
        (PySet [PyStr ''hi'']) (PyStr ''fr'') None None
      = (Inl (AssertionError ''`strings` should be a sequence containing string_types''),
         [], \<lparr>translate_client = PyObj 1, translated_strings = []\<rparr>)
   \<and> \<not> is_Iterable (PyInt 7)
   \<and> goslate_translate_strings stub_free [] \<lparr>service = PyObj 0\<rparr>
        (PyInt 7) (PyStr ''fr'') None None
      = (Inl (AssertionError ''`strings` should a iterable containing string_types''), [])"
  using
    translate_strings_rejects_wrong_shape
      [where strings = "PyGen [PyStr ''hi'']" and ext = stub_paid and log = "[]"
         and self = "\<lparr>translate_client = PyObj 1, translated_strings = []\<rparr>"
         and tgt = "PyStr ''fr''" and src = None and opt = None]
    translate_strings_rejects_wrong_shape
      [where strings = "PySet [PyStr ''hi'']" and ext = stub_paid and log = "[]"
         and self = "\<lparr>translate_client = PyObj 1, translated_strings = []\<rparr>"
         and tgt = "PyStr ''fr''" and src = None and opt = None]
    translate_strings_rejects_wrong_shape
      [where strings = "PyInt 7" and ext = stub_free and log = "[]"
         and gs = "\<lparr>service = PyObj 0\<rparr>"
         and tgt = "PyStr ''fr''" and src = None and opt = None]
  by simp

text \<open>
  C6: when the setting \<^verbatim>\<open>AUTOTRANSLATE_GOOGLE_TRANSLATOR_SERVICE_CREDENTIALS_JSON\<close> is
  absent, or present with an empty (false) value, constructing
  \<^verbatim>\<open>GoogleAPITranslatorService\<close> raises \<^verbatim>\<open>ImproperlyConfigured\<close> with a message that
  contains the name of the setting, and nothing has been called: neither the credentials
  decoder nor the client constructor nor the network.
\<close>

theorem google_init_without_credentials:
  assumes "settings credentials_setting = None
           \<or> (\<exists>v. settings credentials_setting = Some v \<and> \<not> py_truthy v)"
  shows "google_init ext log settings
           = (Inl (ImproperlyConfigured
                     (''ImproperlyConfigured '' @ credentials_setting @ '' setting'')),
              log)"
  using assms
  by (auto simp: google_init_def py_getattr_def credentials_setting_def)

theorem google_init_without_credentials_witness:
  "Map.empty credentials_setting = None
   \<and> google_init stub_paid [] Map.empty
       = (Inl (ImproperlyConfigured
            ''ImproperlyConfigured AUTOTRANSLATE_GOOGLE_TRANSLATOR_SERVICE_CREDENTIALS_JSON setting''),
          [])
   \<and> [credentials_setting \<mapsto> PyDict []] credentials_setting = Some (PyDict [])
   \<and> \<not> py_truthy (PyDict [])
   \<and> google_init stub_paid [] [credentials_setting \<mapsto> PyDict []]
       = (Inl (ImproperlyConfigured
            ''ImproperlyConfigured AUTOTRANSLATE_GOOGLE_TRANSLATOR_SERVICE_CREDENTIALS_JSON setting''),
          [])"
proof -
  have h1: "Map.empty credentials_setting = None
            \<or> (\<exists>v. Map.empty credentials_setting = Some v \<and> \<not> py_truthy v)"
    by simp
  have h2: "[credentials_setting \<mapsto> PyDict []] credentials_setting = None
            \<or> (\<exists>v. [credentials_setting \<mapsto> PyDict []] credentials_setting = Some v
                    \<and> \<not> py_truthy v)"
    by simp
  from google_init_without_credentials
         [where settings = Map.empty and ext = stub_paid and log = "[]"]
       google_init_without_credentials
         [where settings = "[credentials_setting \<mapsto> PyDict []]" and ext = stub_paid
            and log = "[]"]
       h1 h2
  show ?thesis by (simp add: credentials_setting_def)
qed

text \<open>With a non-empty setting the constructor decodes the credentials, builds the
  client from them and starts with an empty accumulator.\<close>

lemma google_init_with_credentials:
  assumes "settings credentials_setting = Some info" and "py_truthy info"
      and "ext log (FromServiceAccountInfo info) = Inr credentials"
      and "ext (log @ [FromServiceAccountInfo info]) (ClientNew credentials) = Inr client"
  shows "google_init ext log settings
           = (Inr \<lparr>translate_client = client, translated_strings = []\<rparr>,
              log @ [FromServiceAccountInfo info, ClientNew credentials])"
  using assms
  by (simp add: google_init_def py_getattr_def credentials_setting_def call_external_def)

section \<open>The flag \<^verbatim>\<open>optimized\<close>\<close>

text \<open>
  C7: for every iterable \<open>strings\<close> to which the backend answers with a lazy sequence,
  \<^verbatim>\<open>GoSlateTranslatorService.translate_strings\<close> with \<^verbatim>\<open>optimized=False\<close> returns a list
  of its items, which a full iteration leaves intact, and with \<^verbatim>\<open>optimized=True\<close> it
  returns the lazy sequence itself, which one full iteration exhausts.
\<close>

theorem goslate_translate_strings_lazy_or_list:
  assumes "is_Iterable strings"
      and "ext log (Translate (service self) strings tgt (arg_or src (PyStr ''en'')))
             = Inr (PyGen ts)"
  shows "fst (goslate_translate_strings ext log self strings tgt src (Some (PyBool False)))
           = Inr (PyList ts)
       \<and> py_iterate (PyList ts) = Inr (ts, PyList ts)
       \<and> fst (goslate_translate_strings ext log self strings tgt src (Some (PyBool True)))
           = Inr (PyGen ts)
       \<and> py_iterate (PyGen ts) = Inr (ts, PyGen [])
       \<and> py_iterate (PyGen []) = Inr ([], PyGen [])"
  using assms
  by (simp add: goslate_translate_strings_def call_external_def arg_or_def)

theorem goslate_translate_strings_lazy_or_list_witness:
  "is_Iterable (PyList [PyStr ''hello'', PyStr ''world''])
   \<and> stub_free [] (Translate (PyObj 0) (PyList [PyStr ''hello'', PyStr ''world''])
                    (PyStr ''fr'') (arg_or None (PyStr ''en'')))
       = Inr (PyGen [PyStr ''bonjour'', PyStr ''monde''])
   \<and> fst (goslate_translate_strings stub_free [] \<lparr>service = PyObj 0\<rparr>
            (PyList [PyStr ''hello'', PyStr ''world'']) (PyStr ''fr'') None
            (Some (PyBool False)))
       = Inr (PyList [PyStr ''bonjour'', PyStr ''monde''])
   \<and> fst (goslate_translate_strings stub_free [] \<lparr>service = PyObj 0\<rparr>
            (PyList [PyStr ''hello'', PyStr ''world'']) (PyStr ''fr'') None
            (Some (PyBool True)))
       = Inr (PyGen [PyStr ''bonjour'', PyStr ''monde''])"
proof -
  have h1: "is_Iterable (PyList [PyStr ''hello'', PyStr ''world''])" by simp
  have h2: "stub_free [] (Translate (service \<lparr>service = PyObj 0\<rparr>)
                    (PyList [PyStr ''hello'', PyStr ''world''])
                    (PyStr ''fr'') (arg_or None (PyStr ''en'')))
       = Inr (PyGen [PyStr ''bonjour'', PyStr ''monde''])"
    by (simp add: arg_or_def)
  from goslate_translate_strings_lazy_or_list
         [where strings = "PyList [PyStr ''hello'', PyStr ''world'']" and ext = stub_free
            and log = "[]" and self = "\<lparr>service = PyObj 0\<rparr>" and tgt = "PyStr ''fr''"
            and src = None and ts = "[PyStr ''bonjour'', PyStr ''monde'']"]
       h1 h2
  show ?thesis by simp
qed

text \<open>Whatever the backend returns, and whatever value \<^verbatim>\<open>optimized\<close> has: a true value
  passes the backend's result on, a false one drains it into a list.\<close>

lemma goslate_translate_strings_optimized_unchanged:
  assumes "is_Iterable strings"
      and "ext log (Translate (service self) strings tgt (arg_or src (PyStr ''en''))) = Inr r"
      and "py_truthy (arg_or opt (PyBool True))"
  shows "goslate_translate_strings ext log self strings tgt src opt
           = (Inr r, log @ [Translate (service self) strings tgt (arg_or src (PyStr ''en''))])"
  using assms
  by (simp add: goslate_translate_strings_def call_external_def)

lemma goslate_translate_strings_not_optimized_list:
  assumes "is_Iterable strings"
      and "ext log (Translate (service self) strings tgt (arg_or src (PyStr ''en''))) = Inr r"
      and "\<not> py_truthy (arg_or opt (PyBool True))"
      and "py_iterate r = Inr (items, r')"
  shows "goslate_translate_strings ext log self strings tgt src opt
           = (Inr (PyList items),
              log @ [Translate (service self) strings tgt (arg_or src (PyStr ''en''))])"
  using assms
  by (simp add: goslate_translate_strings_def call_external_def)

text \<open>
  C8: two calls of \<^verbatim>\<open>GoogleAPITranslatorService.translate_strings\<close> that differ only in
  \<^verbatim>\<open>optimized\<close> (the same instance, the same arguments, the same backend and history)
  return the same value and leave the same call log and the same instance.
\<close>

theorem google_translate_strings_ignores_optimized:
  "google_translate_strings ext log self strings tgt src opt1
     = google_translate_strings ext log self strings tgt src opt2"
  by (simp add: google_translate_strings_def)

section \<open>\<^verbatim>\<open>GoogleAPITranslatorService.translate_string\<close>\<close>

text \<open>
  C9: \<^verbatim>\<open>GoogleAPITranslatorService.translate_string\<close> called with the text alone behaves
  as with \<^verbatim>\<open>target_language="en"\<close> and \<^verbatim>\<open>source_language="es"\<close>, and for a string
  exactly these two values reach the backend client; the base class has
  \<^verbatim>\<open>source_language="en"\<close>.
\<close>

theorem google_translate_string_defaults:
  "google_translate_string ext log self text None None
     = google_translate_string ext log self text (Some (PyStr ''en'')) (Some (PyStr ''es''))
   \<and> snd (google_translate_string ext log self (PyStr s) None None)
     = log @ [Translate (translate_client self) (PyStr s) (PyStr ''en'') (PyStr ''es'')]
   \<and> base_default_source_language = PyStr ''en''"
  by (simp add: google_translate_string_def call_external_def arg_or_def
        base_default_source_language_def split: sum.splits)

text \<open>
  C10: for every string to which the backend answers with a mapping,
  \<^verbatim>\<open>GoogleAPITranslatorService.translate_string\<close> returns \<^verbatim>\<open>None\<close> when the mapping
  has no field \<^verbatim>\<open>translatedText\<close>, without raising, and the value of the field when it
  has one.
\<close>

theorem google_translate_string_defaulting_lookup:
  assumes "ext log (Translate (translate_client self) (PyStr s)
                      (arg_or tgt (PyStr ''en'')) (arg_or src (PyStr ''es'')))
             = Inr (PyDict kvs)"
  shows "(map_of kvs (PyStr ''translatedText'') = None \<longrightarrow>
            fst (google_translate_string ext log self (PyStr s) tgt src) = Inr PyNone)
       \<and> (\<forall>v. map_of kvs (PyStr ''translatedText'') = Some v \<longrightarrow>
            fst (google_translate_string ext log self (PyStr s) tgt src) = Inr v)"
  using assms
  by (simp add: google_translate_string_def call_external_def)

theorem google_translate_string_defaulting_lookup_witness:
  "stub_paid_no_field [] (Translate (PyObj 1) (PyStr ''hi'') (PyStr ''en'') (PyStr ''es''))
       = Inr (PyDict [(PyStr ''input'', PyStr ''hi'')])
   \<and> map_of [(PyStr ''input'', PyStr ''hi'')] (PyStr ''translatedText'') = None
   \<and> fst (google_translate_string stub_paid_no_field []
            \<lparr>translate_client = PyObj 1, translated_strings = []\<rparr> (PyStr ''hi'') None None)
       = Inr PyNone
   \<and> stub_paid [] (Translate (PyObj 1) (PyStr ''hi'') (PyStr ''en'') (PyStr ''es''))
       = Inr (PyDict [(PyStr ''translatedText'', PyStr ''bonjour''),
                      (PyStr ''input'', PyStr ''hi'')])
   \<and> map_of [(PyStr ''translatedText'', PyStr ''bonjour''), (PyStr ''input'', PyStr ''hi'')]
        (PyStr ''translatedText'') = Some (PyStr ''bonjour'')
   \<and> fst (google_translate_string stub_paid []
            \<lparr>translate_client = PyObj 1, translated_strings = []\<rparr> (PyStr ''hi'') None None)
       = Inr (PyStr ''bonjour'')"
proof -
  have h1: "stub_paid_no_field []
              (Translate (translate_client \<lparr>translate_client = PyObj 1, translated_strings = []\<rparr>)
                 (PyStr ''hi'') (arg_or None (PyStr ''en'')) (arg_or None (PyStr ''es'')))
            = Inr (PyDict [(PyStr ''input'', PyStr ''hi'')])"
    by (simp add: arg_or_def)
  have h2: "stub_paid []
              (Translate (translate_client \<lparr>translate_client = PyObj 1, translated_strings = []\<rparr>)
                 (PyStr ''hi'') (arg_or None (PyStr ''en'')) (arg_or None (PyStr ''es'')))
            = Inr (PyDict [(PyStr ''translatedText'', PyStr ''bonjour''),
                           (PyStr ''input'', PyStr ''hi'')])"
    by (simp add: arg_or_def stub_item_def)
  from google_translate_string_defaulting_lookup
         [where ext = stub_paid_no_field and log = "[]"
            and self = "\<lparr>translate_client = PyObj 1, translated_strings = []\<rparr>"
            and s = "''hi''" and tgt = None and src = None
            and kvs = "[(PyStr ''input'', PyStr ''hi'')]"]
       google_translate_string_defaulting_lookup
         [where ext = stub_paid and log = "[]"
            and self = "\<lparr>translate_client = PyObj 1, translated_strings = []\<rparr>"
            and s = "''hi''" and tgt = None and src = None
            and kvs = "[(PyStr ''translatedText'', PyStr ''bonjour''),
                        (PyStr ''input'', PyStr ''hi'')]"]
       h1 h2
  show ?thesis by (simp add: arg_or_def)
qed

end
